theory Spec2Isabelle
  imports Main "HOL-Library.Word" "HOL-Library.Sublist"
begin

unbundle bit_operations_syntax

section \<open>Python values\<close>

text \<open>
  The program is one Python file, \<^verbatim>\<open>verify/verify_evidence.py\<close>. A Python \<^verbatim>\<open>str\<close> is
  modelled as a HOL \<^typ>\<open>string\<close>, one \<^typ>\<open>char\<close> per character, so \<^verbatim>\<open>len\<close> is
  \<^const>\<open>length\<close>; characters beyond U+00FF are outside the model (the only place where
  the code tells characters apart by their code is the ASCII check of the base64 decoder,
  which refuses every character from U+0080 on alike). A Python \<^verbatim>\<open>bytes\<close> is a list of
  8-bit words.
\<close>

type_synonym byte = "8 word"

text \<open>
  What \<^verbatim>\<open>json.loads\<close> returns: \<^verbatim>\<open>None\<close>, a bool, an int, a float (kept by its literal; the
  program never computes with one), a str, a list or a dict. A dict is the list of its
  items in insertion order, looked up with \<^const>\<open>map_of\<close>.
\<close>

datatype json =
    JNull
  | JBool bool
  | JInt int
  | JFloat string
  | JStr string
  | JArr "json list"
  | JObj "(string \<times> json) list"

text \<open>
  The exceptions the program can meet. All of them are subclasses of \<^verbatim>\<open>Exception\<close>
  (\<^verbatim>\<open>binascii.Error\<close>, \<^verbatim>\<open>UnicodeDecodeError\<close> and \<^verbatim>\<open>json.JSONDecodeError\<close> are
  \<^verbatim>\<open>ValueError\<close>s, \<^verbatim>\<open>RecursionError\<close> is a \<^verbatim>\<open>RuntimeError\<close>), so an \<^verbatim>\<open>except Exception\<close> clause catches every value of this type.
  \<^verbatim>\<open>SystemExit\<close>, which \<^verbatim>\<open>sys.exit\<close> raises, is not an \<^verbatim>\<open>Exception\<close> and is not in this
  type: it is the \<open>Exited\<close> status of a run, below.
\<close>

datatype exc =
    FileNotFoundError
  | OSError
  | KeyError string
  | TypeError
  | AttributeError
  | ValueError
  | BinasciiError
  | UnicodeDecodeError
  | JSONDecodeError
  | RequestException
  | RecursionError
  | OtherException

section \<open>The token's segments\<close>

subsection \<open>\<^verbatim>\<open>str.split\<close> with a one-character separator\<close>

text \<open>
  \<^verbatim>\<open>jwt_token.split('.')\<close>: the pieces between the separators, an empty piece where two
  separators are adjacent or one stands at an end; never the empty list.
\<close>

fun py_split :: "char \<Rightarrow> string \<Rightarrow> string list" where
  "py_split sep [] = [[]]"
| "py_split sep (c # cs) =
     (if c = sep then [] # py_split sep cs
      else (case py_split sep cs of
              [] \<Rightarrow> [[c]]
            | p # ps \<Rightarrow> (c # p) # ps))"

subsection \<open>Padding (lines 127 and 138)\<close>

text \<open>
  \<^verbatim>\<open>header_b64 += '=' * (4 - len(header_b64) % 4)\<close>, and the same for the payload.
\<close>

definition pad_segment :: "string \<Rightarrow> string" where
  "pad_segment seg = seg @ replicate (4 - length seg mod 4) (CHR ''='')"

subsection \<open>\<^verbatim>\<open>base64.urlsafe_b64decode\<close>\<close>

text \<open>
  The standard library decodes in three steps: a \<^verbatim>\<open>str\<close> argument is encoded to ASCII
  (\<^verbatim>\<open>ValueError\<close> for any other character), \<^verbatim>\<open>-\<close> and \<^verbatim>\<open>_\<close> are translated to \<^verbatim>\<open>+\<close> and
  \<^verbatim>\<open>/\<close>, and \<^verbatim>\<open>binascii.a2b_base64\<close> runs in its lenient mode. The definitions follow
  CPython 3.11's \<^verbatim>\<open>binascii_a2b_base64_impl\<close> with \<^verbatim>\<open>strict_mode = 0\<close>: characters outside
  the alphabet are skipped; a pad character is skipped unless it completes a quad, where
  the decoder stops reading; the end of the input in the middle of a quad is
  \<^verbatim>\<open>binascii.Error\<close>.
\<close>

definition table_a2b_base64 :: "char \<Rightarrow> byte option" where
  "table_a2b_base64 c =
     (let n = (of_char c :: nat) in
      if 65 \<le> n \<and> n \<le> 90 then Some (of_nat (n - 65))
      else if 97 \<le> n \<and> n \<le> 122 then Some (of_nat (n - 71))
      else if 48 \<le> n \<and> n \<le> 57 then Some (of_nat (n + 4))
      else if c = CHR ''+'' then Some 62
      else if c = CHR ''/'' then Some 63
      else None)"

text \<open>
  The loop of \<^verbatim>\<open>a2b_base64\<close> over the remaining input, with its three variables:
  \<open>quad_pos\<close>, \<open>leftchar\<close> and \<open>pads\<close>. The result is the bytes written from here on.
\<close>

definition emit :: "byte \<Rightarrow> exc + byte list \<Rightarrow> exc + byte list" where
  "emit b r = (case r of Inl e \<Rightarrow> Inl e | Inr bs \<Rightarrow> Inr (b # bs))"

fun a2b_loop :: "nat \<Rightarrow> byte \<Rightarrow> nat \<Rightarrow> string \<Rightarrow> exc + byte list" where
  "a2b_loop quad_pos leftchar pads [] =
     (if quad_pos \<noteq> 0 then Inl BinasciiError else Inr [])"
| "a2b_loop quad_pos leftchar pads (c # cs) =
     (if c = CHR ''='' then
        (if quad_pos \<ge> 2 \<and> quad_pos + (pads + 1) \<ge> 4 then Inr []
         else a2b_loop quad_pos leftchar (if quad_pos \<ge> 2 then pads + 1 else pads) cs)
      else
        (case table_a2b_base64 c of
           None \<Rightarrow> a2b_loop quad_pos leftchar pads cs
         | Some this_ch \<Rightarrow>
             (if quad_pos = 0 then a2b_loop 1 this_ch 0 cs
              else if quad_pos = 1 then
                emit (push_bit 2 leftchar OR drop_bit 4 this_ch)
                  (a2b_loop 2 (this_ch AND 0x0f) 0 cs)
              else if quad_pos = 2 then
                emit (push_bit 4 leftchar OR drop_bit 2 this_ch)
                  (a2b_loop 3 (this_ch AND 0x03) 0 cs)
              else
                emit (push_bit 6 leftchar OR this_ch)
                  (a2b_loop 0 0 0 cs))))"

definition a2b_base64 :: "string \<Rightarrow> exc + byte list" where
  "a2b_base64 s = a2b_loop 0 0 0 s"

definition urlsafe_translate :: "char \<Rightarrow> char" where
  "urlsafe_translate c =
     (if c = CHR ''-'' then CHR ''+'' else if c = CHR ''_'' then CHR ''/'' else c)"

definition urlsafe_b64decode :: "string \<Rightarrow> exc + byte list" where
  "urlsafe_b64decode s =
     (if \<exists>c \<in> set s. (of_char c :: nat) \<ge> 128 then Inl ValueError
      else a2b_base64 (map urlsafe_translate s))"

subsection \<open>The base64url encoding of RFC 4648, without padding\<close>

text \<open>
  The encoding is not part of the program: it is what the attestation service applies to
  the header and the payload of a compact token (RFC 7515), and what a round trip through
  the program's decoding starts from.
\<close>

definition b64url_alphabet :: string where
  "b64url_alphabet = ''ABCDEFGHIJKLMNOPQRSTUVWXYZabcdefghijklmnopqrstuvwxyz0123456789-_''"

definition b64url_char :: "byte \<Rightarrow> char" where
  "b64url_char v = b64url_alphabet ! unat (v AND 0x3f)"

fun b64url_encode :: "byte list \<Rightarrow> string" where
  "b64url_encode [] = []"
| "b64url_encode [a] =
     [b64url_char (drop_bit 2 a), b64url_char (push_bit 4 (a AND 0x03))]"
| "b64url_encode [a, b] =
     [b64url_char (drop_bit 2 a),
      b64url_char (push_bit 4 (a AND 0x03) OR drop_bit 4 b),
      b64url_char (push_bit 2 (b AND 0x0f))]"
| "b64url_encode (a # b # c # rest) =
     [b64url_char (drop_bit 2 a),
      b64url_char (push_bit 4 (a AND 0x03) OR drop_bit 4 b),
      b64url_char (push_bit 2 (b AND 0x0f) OR drop_bit 6 c),
      b64url_char (c AND 0x3f)] @ b64url_encode rest"

subsection \<open>Decoding one segment (lines 126 to 129 and 137 to 140)\<close>

text \<open>
  The functions of the standard library that the program calls and that are not modelled
  here in full are parameters of the model: \<^verbatim>\<open>json.loads\<close> (also behind \<^verbatim>\<open>json.load\<close>),
  \<^verbatim>\<open>json.dumps\<close> with and without \<^verbatim>\<open>indent=2\<close>, \<^verbatim>\<open>json.dump\<close> with \<^verbatim>\<open>indent=2\<close>, and
  \<^verbatim>\<open>bytes.decode\<close>. A function that can raise returns \<open>None\<close> where it raises.
  \<^item> \<^verbatim>\<open>json.dumps\<close> without indent is applied only to the dict of at most four strings of
    lines 66 to 75, and is total.
  \<^item> \<^verbatim>\<open>json.dumps(v, indent=2)\<close> is applied to values \<^verbatim>\<open>json.loads\<close> returned; it runs the
    recursive encoder written in Python and raises \<^verbatim>\<open>RecursionError\<close> on a value nested
    deeper than the interpreter allows (\<open>None\<close>).
  \<^item> \<^verbatim>\<open>json.dump(v, f, indent=2)\<close> writes the chunks of the same encoder to the file one by
    one: its result here is the text that reached the file, and the exception it raised
    if it did not reach the end.
\<close>

record pylib =
  json_loads :: "string \<Rightarrow> json option"
  json_dumps :: "json \<Rightarrow> string"
  json_dumps_indent :: "json \<Rightarrow> string option"
  json_dump_indent :: "json \<Rightarrow> string \<times> exc option"
  bytes_decode :: "byte list \<Rightarrow> string option"

text \<open>
  \<^verbatim>\<open>b64 += '=' * (4 - len(b64) % 4)\<close>,
  \<^verbatim>\<open>text = base64.urlsafe_b64decode(b64).decode()\<close>, \<^verbatim>\<open>json.loads(text)\<close>: the same three
  lines for the header and for the payload.
\<close>

definition decode_segment :: "pylib \<Rightarrow> string \<Rightarrow> exc + json" where
  "decode_segment lib seg =
     (case urlsafe_b64decode (pad_segment seg) of
        Inl e \<Rightarrow> Inl e
      | Inr raw \<Rightarrow>
          (case bytes_decode lib raw of
             None \<Rightarrow> Inl UnicodeDecodeError
           | Some txt \<Rightarrow>
               (case json_loads lib txt of
                  None \<Rightarrow> Inl JSONDecodeError
                | Some v \<Rightarrow> Inr v)))"

section \<open>Python's operations on decoded JSON\<close>

text \<open>\<^verbatim>\<open>v[k]\<close> with a string key: only a dict can be indexed by a string.\<close>

definition py_getitem :: "json \<Rightarrow> string \<Rightarrow> exc + json" where
  "py_getitem v k =
     (case v of
        JObj kvs \<Rightarrow> (case map_of kvs k of None \<Rightarrow> Inl (KeyError k) | Some x \<Rightarrow> Inr x)
      | _ \<Rightarrow> Inl TypeError)"

text \<open>
  \<^verbatim>\<open>k in v\<close> with a string \<open>k\<close>: a key of a dict, an element of a list, a substring of a
  string; \<^verbatim>\<open>TypeError\<close> for a value that is not a container.
\<close>

definition py_contains :: "string \<Rightarrow> json \<Rightarrow> exc + bool" where
  "py_contains k v =
     (case v of
        JObj kvs \<Rightarrow> Inr (k \<in> set (map fst kvs))
      | JArr xs \<Rightarrow> Inr (JStr k \<in> set xs)
      | JStr s \<Rightarrow> Inr (sublist k s)
      | _ \<Rightarrow> Inl TypeError)"

text \<open>\<^verbatim>\<open>v.get(k, d)\<close>: a method of dicts only.\<close>

definition py_get :: "json \<Rightarrow> string \<Rightarrow> json \<Rightarrow> exc + json" where
  "py_get v k d =
     (case v of
        JObj kvs \<Rightarrow> Inr (case map_of kvs k of None \<Rightarrow> d | Some x \<Rightarrow> x)
      | _ \<Rightarrow> Inl AttributeError)"

text \<open>\<^verbatim>\<open>for x in v\<close>: the elements of a list, the keys of a dict, the characters of a string.\<close>

definition py_iter :: "json \<Rightarrow> exc + json list" where
  "py_iter v =
     (case v of
        JArr xs \<Rightarrow> Inr xs
      | JObj kvs \<Rightarrow> Inr (map (\<lambda>kv. JStr (fst kv)) kvs)
      | JStr s \<Rightarrow> Inr (map (\<lambda>c. JStr [c]) s)
      | _ \<Rightarrow> Inl TypeError)"

text \<open>\<^verbatim>\<open>len(v)\<close>.\<close>

definition py_len :: "json \<Rightarrow> exc + nat" where
  "py_len v =
     (case v of
        JStr s \<Rightarrow> Inr (length s)
      | JArr xs \<Rightarrow> Inr (length xs)
      | JObj kvs \<Rightarrow> Inr (length kvs)
      | _ \<Rightarrow> Inl TypeError)"

text \<open>\<^verbatim>\<open>isinstance(v, dict) and v.get(k) == s\<close> for a string \<open>s\<close>.\<close>

definition dict_field_is :: "json \<Rightarrow> string \<Rightarrow> string \<Rightarrow> bool" where
  "dict_field_is v k s =
     (case v of JObj kvs \<Rightarrow> map_of kvs k = Some (JStr s) | _ \<Rightarrow> False)"

section \<open>What a run does\<close>

text \<open>
  Every \<^verbatim>\<open>print\<close> of the program is one constructor of \<open>msg\<close>, carrying the values the
  line formats; \<open>Traceback\<close> is \<^verbatim>\<open>traceback.print_exc()\<close>, and \<open>JsonText\<close> is the \<^verbatim>\<open>print\<close> of
  a text that \<^verbatim>\<open>json.dumps(v, indent=2)\<close> returned.
\<close>

datatype msg =
    ReadEvidenceFile
  | EvidenceFileNotFound
  | EvidenceFieldNotFound
  | FailedToLoadEvidence exc
  | Traceback exc
  | EvidenceLength nat
  | UsePolicyId string
  | UseAAInstanceInfo string
  | SendRequest
  | HttpStatusCode int
  | VerificationSucceeded
  | BlankLine
  | TokenSaved
  | VerificationFailed
  | ErrorResponseJson json
  | ErrorResponseText string
  | RequestError exc
  | ErrorMsg exc
  | InvalidJwtFormat
  | HeaderHeading
  | PayloadHeading
  | JsonText string
  | PayloadSaved
  | ResultHeading
  | VerificationStatus json
  | TrustVectorHeading
  | TrustConfiguration json
  | TrustExecutables json
  | TrustFileSystem json
  | ReportData json
  | StartAppHeading
  | StartAppNotFound
  | CryptpilotHeading
  | CryptpilotOperation json
  | CryptpilotContent json
  | CryptpilotNotFound
  | MissingExpectedFields exc
  | ErrorExtracting exc
  | FailedToDecodeJwt exc

subsection \<open>The world of a run\<close>

text \<open>
  What the program reads from outside: the environment variables, the files it opens for
  reading, the answer of the attestation service to a request (or the exception
  \<^verbatim>\<open>requests.post\<close> raises), whether a file can be opened for writing, and whether the
  standard output takes a text. The fixed lines of the program and the lines that format
  one value are short and are taken to be printed without error; the text of a dump has
  no bound, and \<^verbatim>\<open>print\<close> raises \<^verbatim>\<open>OSError\<close> on one the standard output does not take
  (a full device, a closed pipe).
\<close>

datatype file_read = NoSuchFile | Unreadable | FileText string

record response =
  status_code :: int
  resp_text :: string
  resp_json :: "json option"

record request =
  url :: string
  json_body :: json
  headers :: "(string \<times> string) list"
  verify :: bool

record world =
  environ :: "string \<Rightarrow> string option"
  read_file :: "string \<Rightarrow> file_read"
  http_post :: "request \<Rightarrow> exc + response"
  writable :: "string \<Rightarrow> bool"
  stdout_takes :: "string \<Rightarrow> bool"

subsection \<open>Code that prints and may raise\<close>

text \<open>
  The statements of \<^verbatim>\<open>decode_jwt\<close> outside the write of the payload file only print and
  evaluate expressions that may raise. Such code is a pair: the lines printed so far, and
  the exception raised or the value.
\<close>

type_synonym 'a printing = "msg list \<times> (exc + 'a)"

definition pr_return :: "'a \<Rightarrow> 'a printing" where
  "pr_return x = ([], Inr x)"

definition pr_print :: "msg \<Rightarrow> unit printing" where
  "pr_print m = ([m], Inr ())"

definition pr_eval :: "exc + 'a \<Rightarrow> 'a printing" where
  "pr_eval r = ([], r)"

definition pr_bind :: "'a printing \<Rightarrow> ('a \<Rightarrow> 'b printing) \<Rightarrow> 'b printing" where
  "pr_bind m f =
     (case m of
        (out, Inl e) \<Rightarrow> (out, Inl e)
      | (out, Inr x) \<Rightarrow> (case f x of (out', r) \<Rightarrow> (out @ out', r)))"

text \<open>A \<^verbatim>\<open>for\<close> loop with one loop-carried variable.\<close>

primrec pr_for :: "'a list \<Rightarrow> ('a \<Rightarrow> 's \<Rightarrow> 's printing) \<Rightarrow> 's \<Rightarrow> 's printing" where
  "pr_for [] body s = pr_return s"
| "pr_for (x # xs) body s = pr_bind (body x s) (pr_for xs body)"

text \<open>
  \<^verbatim>\<open>print(json.dumps(v, indent=2))\<close> (lines 133, 144 and 185): the encoder may raise, and so
  may the \<^verbatim>\<open>print\<close> of its text.
\<close>

definition print_json :: "pylib \<Rightarrow> world \<Rightarrow> json \<Rightarrow> unit printing" where
  "print_json lib w v =
     (case json_dumps_indent lib v of
        None \<Rightarrow> ([], Inl RecursionError)
      | Some txt \<Rightarrow> if stdout_takes w txt then ([JsonText txt], Inr ()) else ([], Inl OSError))"

text \<open>Lines 132 to 134 and 143 to 145, which run in verbose mode only.\<close>

definition verbose_block :: "pylib \<Rightarrow> world \<Rightarrow> msg \<Rightarrow> json \<Rightarrow> unit printing" where
  "verbose_block lib w heading v =
     pr_bind (pr_print heading) (\<lambda>_.
     pr_bind (print_json lib w v) (\<lambda>_.
     pr_print BlankLine))"

subsection \<open>The summary of the payload (lines 156 to 213)\<close>

text \<open>\<^verbatim>\<open>'tdx' in evidence and k in evidence['tdx']\<close> (lines 173, 178 and 192).\<close>

definition tdx_has :: "json \<Rightarrow> string \<Rightarrow> bool printing" where
  "tdx_has evidence k =
     pr_bind (pr_eval (py_contains ''tdx'' evidence)) (\<lambda>b.
       if \<not> b then pr_return False
       else pr_bind (pr_eval (py_getitem evidence ''tdx'')) (\<lambda>tdx.
              pr_eval (py_contains k tdx)))"

text \<open>Lines 163 to 168.\<close>

definition trust_vector_lines :: "json \<Rightarrow> unit printing" where
  "trust_vector_lines cpu0 =
     pr_bind (pr_eval (py_contains ''ear.trustworthiness-vector'' cpu0)) (\<lambda>b.
       if \<not> b then pr_return ()
       else
         pr_bind (pr_eval (py_getitem cpu0 ''ear.trustworthiness-vector'')) (\<lambda>trust_vector.
         pr_bind (pr_print TrustVectorHeading) (\<lambda>_.
         pr_bind (pr_eval (py_get trust_vector ''configuration'' (JStr ''N/A''))) (\<lambda>c.
         pr_bind (pr_print (TrustConfiguration c)) (\<lambda>_.
         pr_bind (pr_eval (py_get trust_vector ''executables'' (JStr ''N/A''))) (\<lambda>x.
         pr_bind (pr_print (TrustExecutables x)) (\<lambda>_.
         pr_bind (pr_eval (py_get trust_vector ''file-system'' (JStr ''N/A''))) (\<lambda>f.
         pr_print (TrustFileSystem f)))))))))"

text \<open>Lines 173 to 175.\<close>

definition report_data_lines :: "json \<Rightarrow> unit printing" where
  "report_data_lines evidence =
     pr_bind (tdx_has evidence ''quote'') (\<lambda>b.
       if \<not> b then pr_return ()
       else
         pr_bind (pr_eval (py_getitem evidence ''tdx'')) (\<lambda>tdx.
         pr_bind (pr_eval (py_getitem tdx ''quote'')) (\<lambda>quote.
         pr_bind (pr_eval (py_getitem quote ''body'')) (\<lambda>body.
         pr_bind (pr_eval (py_get body ''report_data'' (JStr ''N/A''))) (\<lambda>report_data.
         pr_print (ReportData report_data))))))"

text \<open>
  Lines 182 and 183 (and 196 and 197): the \<open>data\<close> of a log entry when
  \<^verbatim>\<open>'details' in log and 'data' in log['details']\<close>, no value otherwise.
\<close>

definition log_data :: "json \<Rightarrow> json option printing" where
  "log_data log =
     pr_bind (pr_eval (py_contains ''details'' log)) (\<lambda>b.
       if \<not> b then pr_return None
       else
         pr_bind (pr_eval (py_getitem log ''details'')) (\<lambda>details.
         pr_bind (pr_eval (py_contains ''data'' details)) (\<lambda>b'.
           if \<not> b' then pr_return None
           else pr_bind (pr_eval (py_getitem details ''data'')) (\<lambda>data.
                  pr_return (Some data)))))"

text \<open>The body of the loop of lines 181 to 186; the loop carries \<open>found_start_app\<close>.\<close>

definition start_app_step :: "pylib \<Rightarrow> world \<Rightarrow> json \<Rightarrow> bool \<Rightarrow> bool printing" where
  "start_app_step lib w log found_start_app =
     pr_bind (log_data log) (\<lambda>d.
       case d of
         None \<Rightarrow> pr_return found_start_app
       | Some data \<Rightarrow>
           if dict_field_is data ''operation'' ''start_app'' then
             pr_bind (pr_eval (py_getitem log ''details'')) (\<lambda>details.
             pr_bind (print_json lib w details) (\<lambda>_.
             pr_return True))
           else pr_return found_start_app)"

text \<open>Lines 178 to 189.\<close>

definition start_app_lines :: "pylib \<Rightarrow> world \<Rightarrow> json \<Rightarrow> unit printing" where
  "start_app_lines lib w evidence =
     pr_bind (tdx_has evidence ''uefi_event_logs'') (\<lambda>b.
       if \<not> b then pr_return ()
       else
         pr_bind (pr_print StartAppHeading) (\<lambda>_.
         pr_bind (pr_eval (py_getitem evidence ''tdx'')) (\<lambda>tdx.
         pr_bind (pr_eval (py_getitem tdx ''uefi_event_logs'')) (\<lambda>logs.
         pr_bind (pr_eval (py_iter logs)) (\<lambda>entries.
         pr_bind (pr_for entries (start_app_step lib w) False) (\<lambda>found_start_app.
           if \<not> found_start_app then pr_print StartAppNotFound
           else pr_return ()))))))"

text \<open>The body of the loop of lines 195 to 202.\<close>

definition cryptpilot_step :: "json \<Rightarrow> bool \<Rightarrow> bool printing" where
  "cryptpilot_step log found_cryptpilot =
     pr_bind (log_data log) (\<lambda>d.
       case d of
         None \<Rightarrow> pr_return found_cryptpilot
       | Some data \<Rightarrow>
           if dict_field_is data ''domain'' ''cryptpilot.alibabacloud.com'' then
             pr_bind (pr_eval (py_get data ''operation'' (JStr ''N/A''))) (\<lambda>operation.
             pr_bind (pr_print (CryptpilotOperation operation)) (\<lambda>_.
             pr_bind (pr_eval (py_get data ''content'' (JStr ''N/A''))) (\<lambda>content.
             pr_bind (pr_print (CryptpilotContent content)) (\<lambda>_.
             pr_bind (pr_print BlankLine) (\<lambda>_.
             pr_return True)))))
           else pr_return found_cryptpilot)"

text \<open>Lines 192 to 205, entered in verbose mode only.\<close>

definition cryptpilot_lines :: "json \<Rightarrow> unit printing" where
  "cryptpilot_lines evidence =
     pr_bind (tdx_has evidence ''uefi_event_logs'') (\<lambda>b.
       if \<not> b then pr_return ()
       else
         pr_bind (pr_print CryptpilotHeading) (\<lambda>_.
         pr_bind (pr_eval (py_getitem evidence ''tdx'')) (\<lambda>tdx.
         pr_bind (pr_eval (py_getitem tdx ''uefi_event_logs'')) (\<lambda>logs.
         pr_bind (pr_eval (py_iter logs)) (\<lambda>entries.
         pr_bind (pr_for entries cryptpilot_step False) (\<lambda>found_cryptpilot.
           if \<not> found_cryptpilot then pr_print CryptpilotNotFound
           else pr_return ()))))))"

text \<open>The body of the inner \<^verbatim>\<open>try\<close> (lines 158 to 205).\<close>

definition summary :: "pylib \<Rightarrow> world \<Rightarrow> bool \<Rightarrow> json \<Rightarrow> unit printing" where
  "summary lib w verbose payload =
     pr_bind (pr_eval (py_getitem payload ''submods'')) (\<lambda>submods.
     pr_bind (pr_eval (py_getitem submods ''cpu0'')) (\<lambda>cpu0.
     pr_bind (pr_eval (py_getitem cpu0 ''ear.status'')) (\<lambda>verification_status.
     pr_bind (pr_print (VerificationStatus verification_status)) (\<lambda>_.
     pr_bind (trust_vector_lines cpu0) (\<lambda>_.
     pr_bind (pr_eval (py_contains ''ear.veraison.annotated-evidence'' cpu0)) (\<lambda>b.
       if \<not> b then pr_return ()
       else
         pr_bind (pr_eval (py_getitem cpu0 ''ear.veraison.annotated-evidence'')) (\<lambda>evidence.
         pr_bind (report_data_lines evidence) (\<lambda>_.
         pr_bind (start_app_lines lib w evidence) (\<lambda>_.
           if verbose then cryptpilot_lines evidence else pr_return ())))))))))"

text \<open>The two handlers of the inner \<^verbatim>\<open>try\<close> (lines 207 to 213).\<close>

fun summary_failed :: "bool \<Rightarrow> exc \<Rightarrow> msg list" where
  "summary_failed verbose (KeyError k) = [MissingExpectedFields (KeyError k)]"
| "summary_failed verbose e = ErrorExtracting e # (if verbose then [Traceback e] else [])"

text \<open>Lines 156 to 213: the heading, the summary, and what its handlers print.\<close>

definition extract_info :: "pylib \<Rightarrow> world \<Rightarrow> bool \<Rightarrow> json \<Rightarrow> msg list" where
  "extract_info lib w verbose payload =
     ResultHeading #
     (case summary lib w verbose payload of
        (out, Inl e) \<Rightarrow> out @ summary_failed verbose e
      | (out, Inr _) \<Rightarrow> out)"

subsection \<open>The effects of a run\<close>

text \<open>
  The effects of a run, in order: a line printed, the HTTP POST issued, a file written
  with its whole content. A run ends by returning, by \<^verbatim>\<open>sys.exit\<close>, or with an exception
  nothing catches.
\<close>

datatype event = Print msg | Post request | Write string string

datatype status = Returned | Exited int | Crashed exc

definition after :: "event list \<Rightarrow> event list \<times> status \<Rightarrow> event list \<times> status" where
  "after evs r = (evs @ fst r, snd r)"

subsection \<open>\<^verbatim>\<open>decode_jwt\<close> (lines 117 to 218)\<close>

text \<open>The handler of the outer \<^verbatim>\<open>try\<close> (lines 215 to 218).\<close>

definition decode_failed :: "exc \<Rightarrow> event list" where
  "decode_failed e = [Print (FailedToDecodeJwt e), Print (Traceback e)]"

text \<open>
  Lines 148 and 149, and what follows them: \<^verbatim>\<open>open\<close> raises when the file cannot be opened
  for writing; \<^verbatim>\<open>json.dump\<close> leaves in the file what it wrote, also when it raises.
\<close>

definition save_and_summarise :: "pylib \<Rightarrow> world \<Rightarrow> bool \<Rightarrow> json \<Rightarrow> event list" where
  "save_and_summarise lib w verbose payload =
     (if \<not> writable w ''jwt_payload.json'' then decode_failed OSError
      else
        (case json_dump_indent lib payload of
           (written, Some e) \<Rightarrow> Write ''jwt_payload.json'' written # decode_failed e
         | (written, None) \<Rightarrow>
             [Write ''jwt_payload.json'' written] @
             (if verbose then [Print PayloadSaved, Print BlankLine] else []) @
             map Print (extract_info lib w verbose payload)))"

text \<open>
  The function has one \<^verbatim>\<open>try\<close> around its whole body, whose handler catches every
  \<^verbatim>\<open>Exception\<close>, and a \<^verbatim>\<open>return\<close> for a token that has not three segments: it always
  returns, and its result is the list of its effects. An exception raised by a statement
  of the verbose mode ends the body like any other: what follows the statement does not
  run.
\<close>

definition decode_jwt :: "pylib \<Rightarrow> world \<Rightarrow> string \<Rightarrow> bool \<Rightarrow> event list" where
  "decode_jwt lib w jwt_token verbose =
     (let parts = py_split (CHR ''.'') jwt_token in
      if length parts \<noteq> 3 then [Print InvalidJwtFormat]
      else
        (case decode_segment lib (parts ! 0) of
           Inl e \<Rightarrow> decode_failed e
         | Inr header \<Rightarrow>
             (case (if verbose then verbose_block lib w HeaderHeading header
                    else pr_return ()) of
                (out, Inl e) \<Rightarrow> map Print out @ decode_failed e
              | (out, Inr _) \<Rightarrow>
                  map Print out @
                  (case decode_segment lib (parts ! 1) of
                     Inl e \<Rightarrow> decode_failed e
                   | Inr payload \<Rightarrow>
                       (case (if verbose then verbose_block lib w PayloadHeading payload
                              else pr_return ()) of
                          (out', Inl e) \<Rightarrow> map Print out' @ decode_failed e
                        | (out', Inr _) \<Rightarrow>
                            map Print out' @ save_and_summarise lib w verbose payload)))))"

subsection \<open>\<^verbatim>\<open>verify_evidence\<close> (lines 13 to 115)\<close>

text \<open>\<^verbatim>\<open>os.environ.get(k, d)\<close>.\<close>

definition env_get :: "world \<Rightarrow> string \<Rightarrow> string \<Rightarrow> string" where
  "env_get w k d = (case environ w k of None \<Rightarrow> d | Some v \<Rightarrow> v)"

definition evidence_file :: string where
  "evidence_file = ''evidence.json''"

definition attestation_url :: string where
  "attestation_url = ''http://localhost:8081/api/attestation-service/attestation''"

text \<open>The body of the first \<^verbatim>\<open>try\<close> (lines 32 to 34).\<close>

definition load_evidence :: "pylib \<Rightarrow> world \<Rightarrow> exc + json" where
  "load_evidence lib w =
     (case read_file w evidence_file of
        NoSuchFile \<Rightarrow> Inl FileNotFoundError
      | Unreadable \<Rightarrow> Inl OSError
      | FileText s \<Rightarrow>
          (case json_loads lib s of
             None \<Rightarrow> Inl JSONDecodeError
           | Some evidence_data \<Rightarrow> py_getitem evidence_data ''evidence''))"

text \<open>Its three handlers (lines 35 to 45).\<close>

fun load_failed :: "exc \<Rightarrow> event list \<times> status" where
  "load_failed FileNotFoundError = ([Print EvidenceFileNotFound], Exited 1)"
| "load_failed (KeyError k) = ([Print EvidenceFieldNotFound], Exited 1)"
| "load_failed e = ([Print (FailedToLoadEvidence e), Print (Traceback e)], Exited 1)"

text \<open>Lines 51 to 57.\<close>

definition request_payload :: "json \<Rightarrow> string \<Rightarrow> json" where
  "request_payload evidence_body policy_id =
     JObj [(''verification_requests'',
              JArr [JObj [(''tee'', JStr ''tdx''), (''evidence'', evidence_body)]]),
           (''policy_ids'', JArr [JStr policy_id])]"

text \<open>Lines 66 to 74: a string is true when it is not empty.\<close>

definition aa_instance_info :: "string \<Rightarrow> string \<Rightarrow> string \<Rightarrow> string \<Rightarrow> json" where
  "aa_instance_info image_id instance_id instance_name owner_account_id =
     JObj ((if image_id \<noteq> [] then [(''image_id'', JStr image_id)] else []) @
           (if instance_id \<noteq> [] then [(''instance_id'', JStr instance_id)] else []) @
           (if instance_name \<noteq> [] then [(''instance_name'', JStr instance_name)] else []) @
           (if owner_account_id \<noteq> [] then [(''owner_account_id'', JStr owner_account_id)]
            else []))"

text \<open>
  Lines 65 to 75: the value of the \<^verbatim>\<open>AAInstanceInfo\<close> header, when the program adds one.
\<close>

definition aa_header :: "pylib \<Rightarrow> string \<Rightarrow> string \<Rightarrow> string \<Rightarrow> string \<Rightarrow> string option" where
  "aa_header lib image_id instance_id instance_name owner_account_id =
     (if image_id \<noteq> [] \<or> instance_id \<noteq> [] \<or> instance_name \<noteq> [] \<or> owner_account_id \<noteq> []
      then Some (json_dumps lib
                   (aa_instance_info image_id instance_id instance_name owner_account_id))
      else None)"

text \<open>Lines 60 to 75: the headers of the request.\<close>

definition request_headers ::
  "pylib \<Rightarrow> string \<Rightarrow> string \<Rightarrow> string \<Rightarrow> string \<Rightarrow> (string \<times> string) list" where
  "request_headers lib image_id instance_id instance_name owner_account_id =
     (''Content-Type'', ''application/json'') #
     (case aa_header lib image_id instance_id instance_name owner_account_id of
        None \<Rightarrow> []
      | Some info \<Rightarrow> [(''AAInstanceInfo'', info)])"

text \<open>The handlers of the second \<^verbatim>\<open>try\<close> (lines 106 to 115).\<close>

fun request_failed :: "exc \<Rightarrow> event list \<times> status" where
  "request_failed RequestException =
     ([Print (RequestError RequestException), Print (Traceback RequestException)], Exited 1)"
| "request_failed e = ([Print (ErrorMsg e), Print (Traceback e)], Exited 1)"

text \<open>
  Lines 81 to 104, once \<^verbatim>\<open>requests.post\<close> has returned. The \<^verbatim>\<open>sys.exit(1)\<close> of line 104
  passes both handlers, which catch \<^verbatim>\<open>Exception\<close>s only.
\<close>

definition handle_response ::
  "pylib \<Rightarrow> world \<Rightarrow> bool \<Rightarrow> response \<Rightarrow> event list \<times> status" where
  "handle_response lib w verbose r =
     after [Print (HttpStatusCode (status_code r))]
       (if status_code r = 200 then
          (let jwt_token = resp_text r in
           after ([Print VerificationSucceeded, Print BlankLine] @
                  decode_jwt lib w jwt_token verbose)
             (if writable w ''jwt_token.txt''
              then ([Write ''jwt_token.txt'' jwt_token, Print TokenSaved], Returned)
              else request_failed OSError))
        else
          ([Print VerificationFailed,
            Print (case resp_json r of
                     Some error_response \<Rightarrow> ErrorResponseJson error_response
                   | None \<Rightarrow> ErrorResponseText (resp_text r))],
           Exited 1))"

text \<open>Line 80: the arguments of \<^verbatim>\<open>requests.post\<close>.\<close>

definition build_request ::
  "pylib \<Rightarrow> string \<Rightarrow> string \<Rightarrow> string \<Rightarrow> string \<Rightarrow> string \<Rightarrow> json \<Rightarrow> request" where
  "build_request lib policy_id image_id instance_id instance_name owner_account_id
       evidence_body =
     \<lparr>url = attestation_url,
      json_body = request_payload evidence_body policy_id,
      headers = request_headers lib image_id instance_id instance_name owner_account_id,
      verify = False\<rparr>"

text \<open>
  The whole function. Line 47 computes \<^verbatim>\<open>len(evidence_body)\<close> outside every \<^verbatim>\<open>try\<close>: an
  evidence value that has no length ends the run with an uncaught \<^verbatim>\<open>TypeError\<close>.
\<close>

definition verify_evidence :: "pylib \<Rightarrow> world \<Rightarrow> bool \<Rightarrow> event list \<times> status" where
  "verify_evidence lib w verbose =
     (let policy_id = env_get w ''POLICY_ID'' ''tapp'';
          image_id = env_get w ''IMAGE_ID'' [];
          instance_id = env_get w ''INSTANCE_ID'' [];
          instance_name = env_get w ''INSTANCE_NAME'' [];
          owner_account_id = env_get w ''OWNER_ACCOUNT_ID'' []
      in
      after [Print ReadEvidenceFile]
        (case load_evidence lib w of
           Inl e \<Rightarrow> load_failed e
         | Inr evidence_body \<Rightarrow>
             (case py_len evidence_body of
                Inl e \<Rightarrow> ([], Crashed e)
              | Inr n \<Rightarrow>
                  (let req = build_request lib policy_id image_id instance_id instance_name
                               owner_account_id evidence_body
                   in
                   after ([Print (EvidenceLength n), Print (UsePolicyId policy_id)] @
                          (case aa_header lib image_id instance_id instance_name
                                  owner_account_id of
                             None \<Rightarrow> []
                           | Some info \<Rightarrow> [Print (UseAAInstanceInfo info)]) @
                          [Print SendRequest, Post req])
                     (case http_post w req of
                        Inl e \<Rightarrow> request_failed e
                      | Inr r \<Rightarrow> handle_response lib w verbose r)))))"

subsection \<open>\<^verbatim>\<open>main\<close>: the exit status of the process\<close>

text \<open>
  \<^verbatim>\<open>main\<close> parses the flag and calls \<^verbatim>\<open>verify_evidence\<close>. The process exits with 0 when
  that returns, with the argument of \<^verbatim>\<open>sys.exit\<close>, and with 1 after an uncaught exception.
\<close>

definition exit_code :: "status \<Rightarrow> int" where
  "exit_code st = (case st of Returned \<Rightarrow> 0 | Exited n \<Rightarrow> n | Crashed e \<Rightarrow> 1)"

definition main :: "pylib \<Rightarrow> world \<Rightarrow> bool \<Rightarrow> event list \<times> int" where
  "main lib w verbose =
     (case verify_evidence lib w verbose of (evs, st) \<Rightarrow> (evs, exit_code st))"

text \<open>What a list of effects sends and what it leaves on disk.\<close>

definition posts :: "event list \<Rightarrow> request list" where
  "posts evs = concat (map (\<lambda>ev. case ev of Post req \<Rightarrow> [req] | _ \<Rightarrow> []) evs)"

definition writes :: "event list \<Rightarrow> (string \<times> string) list" where
  "writes evs = concat (map (\<lambda>ev. case ev of Write name content \<Rightarrow> [(name, content)] | _ \<Rightarrow> []) evs)"

subsection \<open>Names for parts of a run\<close>

text \<open>
  The request a run sends for an evidence body (lines 21 to 27 and 51 to 75 read the
  environment), and the effects of a run up to and including the POST, for an evidence
  body of length \<open>n\<close>.
\<close>

definition sent_request :: "pylib \<Rightarrow> world \<Rightarrow> json \<Rightarrow> request" where
  "sent_request lib w evidence_body =
     build_request lib (env_get w ''POLICY_ID'' ''tapp'') (env_get w ''IMAGE_ID'' [])
       (env_get w ''INSTANCE_ID'' []) (env_get w ''INSTANCE_NAME'' [])
       (env_get w ''OWNER_ACCOUNT_ID'' []) evidence_body"

definition run_prefix :: "pylib \<Rightarrow> world \<Rightarrow> json \<Rightarrow> nat \<Rightarrow> event list" where
  "run_prefix lib w evidence_body n =
     [Print ReadEvidenceFile, Print (EvidenceLength n),
      Print (UsePolicyId (env_get w ''POLICY_ID'' ''tapp''))] @
     (case aa_header lib (env_get w ''IMAGE_ID'' []) (env_get w ''INSTANCE_ID'' [])
             (env_get w ''INSTANCE_NAME'' []) (env_get w ''OWNER_ACCOUNT_ID'' []) of
        None \<Rightarrow> []
      | Some info \<Rightarrow> [Print (UseAAInstanceInfo info)]) @
     [Print SendRequest, Post (sent_request lib w evidence_body)]"


text \<open>
  The four identity fields of a run with their names, in the order of lines 67 to 74.
\<close>

definition identity_fields :: "world \<Rightarrow> (string \<times> string) list" where
  "identity_fields w =
     [(''image_id'', env_get w ''IMAGE_ID'' []),
      (''instance_id'', env_get w ''INSTANCE_ID'' []),
      (''instance_name'', env_get w ''INSTANCE_NAME'' []),
      (''owner_account_id'', env_get w ''OWNER_ACCOUNT_ID'' [])]"

text \<open>Those of the four that are not empty.\<close>

definition present_fields :: "world \<Rightarrow> (string \<times> string) list" where
  "present_fields w = filter (\<lambda>kv. snd kv \<noteq> []) (identity_fields w)"

section \<open>Concrete runs\<close>

text \<open>
  The theorems below hold for every library and every world. To run the model, the
  library is instantiated with a fragment of CPython's: \<^verbatim>\<open>bytes.decode\<close> on ASCII bytes,
  and \<^verbatim>\<open>json.loads\<close> and \<^verbatim>\<open>json.dumps\<close> on the few texts and values of the examples (a
  text or value outside the table is refused or printed as nothing; no example uses one).
  A dump of a value of the table is produced whole.
\<close>

definition ascii_decode :: "byte list \<Rightarrow> string option" where
  "ascii_decode bs =
     (if \<exists>b \<in> set bs. b \<ge> 0x80 then None else Some (map (\<lambda>b. char_of (unat b)) bs))"

definition json_texts :: "(string \<times> json) list" where
  \<open>json_texts =
     [(''{}'', JObj []),
      (''[]'', JArr []),
      (''[1]'', JArr [JInt 1]),
      (''{"alg": "ES256"}'', JObj [(''alg'', JStr ''ES256'')]),
      (''{"evidence": "dGR4"}'', JObj [(''evidence'', JStr ''dGR4'')]),
      (''{"evidence": ""}'', JObj [(''evidence'', JStr [])]),
      (''{"quote": "dGR4"}'', JObj [(''quote'', JStr ''dGR4'')]),
      (''{"image_id": "img-1", "owner_account_id": "42"}'',
         JObj [(''image_id'', JStr ''img-1''), (''owner_account_id'', JStr ''42'')])]\<close>

text \<open>\<^verbatim>\<open>json.dumps({"alg": "ES256"}, indent=2)\<close>: three lines.\<close>

definition es256_header_dump :: string where
  \<open>es256_header_dump = ''{'' @ [CHR 0x0A] @ ''  "alg": "ES256"'' @ [CHR 0x0A] @ ''}''\<close>

definition json_texts_indent :: "(json \<times> string) list" where
  "json_texts_indent =
     [(JObj [], ''{}''),
      (JObj [(''alg'', JStr ''ES256'')], es256_header_dump)]"

definition cpython_fragment :: pylib where
  "cpython_fragment =
     \<lparr>json_loads = map_of json_texts,
      json_dumps = (\<lambda>v. case map_of (map (\<lambda>(t, x). (x, t)) json_texts) v of
                          None \<Rightarrow> [] | Some t \<Rightarrow> t),
      json_dumps_indent = (\<lambda>v. Some (case map_of json_texts_indent v of
                                          None \<Rightarrow> [] | Some t \<Rightarrow> t)),
      json_dump_indent = (\<lambda>v. (case map_of json_texts_indent v of
                                    None \<Rightarrow> [] | Some t \<Rightarrow> t, None)),
      bytes_decode = ascii_decode\<rparr>"

text \<open>
  A world with one evidence file, some environment variables and one answer of the
  service, where every file can be written and the standard output takes every text.
\<close>

definition world_with ::
  "file_read \<Rightarrow> (string \<times> string) list \<Rightarrow> exc + response \<Rightarrow> world" where
  "world_with file env answer =
     \<lparr>environ = map_of env,
      read_file = (\<lambda>name. if name = evidence_file then file else NoSuchFile),
      http_post = (\<lambda>req. answer),
      writable = (\<lambda>name. True),
      stdout_takes = (\<lambda>txt. True)\<rparr>"

definition good_evidence :: file_read where
  \<open>good_evidence = FileText ''{"evidence": "dGR4"}''\<close>

definition empty_evidence :: file_read where
  \<open>empty_evidence = FileText ''{"evidence": ""}''\<close>

definition answer_200 :: "string \<Rightarrow> exc + response" where
  "answer_200 token = Inr \<lparr>status_code = 200, resp_text = token, resp_json = None\<rparr>"

definition answer_403 :: "exc + response" where
  \<open>answer_403 =
     Inr \<lparr>status_code = 403, resp_text = ''{"error": "denied"}'',
          resp_json = Some (JObj [(''error'', JStr ''denied'')])\<rparr>\<close>

text \<open>
  Tokens: \<^verbatim>\<open>e30\<close> is the encoding of \<^verbatim>\<open>{}\<close>, \<^verbatim>\<open>eyJhbGciOiAiRVMyNTYifQ\<close> that of
  \<^verbatim>\<open>{"alg": "ES256"}\<close>; \<^verbatim>\<open>A\<close> is no base64 text (one character more than a multiple of
  four).
\<close>

definition token_empty_payload :: string where
  "token_empty_payload = ''eyJhbGciOiAiRVMyNTYifQ.e30.c2ln''"











section \<open>The base64 round trip\<close>

text \<open>
  Decoding the padded encoding of a byte string returns the byte string: the bit
  arithmetic of one quad, the alphabet, and an induction over the encoder.
\<close>

lemma masks: "(0x3f::byte) = mask 6" "(0x0f::byte) = mask 4" "(0x03::byte) = mask 2"
  by (simp_all add: mask_eq_exp_minus_1)

lemma unat_and_63: "unat ((v::byte) AND 0x3f) < 64"
proof -
  have "v AND mask 6 < 2 ^ 6" by (rule and_mask_less_size) (simp add: word_size)
  then show ?thesis by (simp add: word_less_nat_alt masks)
qed

lemma suc_suc_minus2: "2 \<le> n \<Longrightarrow> Suc (Suc (n - 2)) = n" by simp
lemma add_minus_same: "k \<le> n \<Longrightarrow> k + (n - k) = (n::nat)" by simp

lemma quad_byte1: "push_bit 2 (drop_bit 2 (a::byte) AND 0x3f) OR drop_bit 4 ((push_bit 4 (a AND 0x03) OR drop_bit 4 (b::byte)) AND 0x3f) = a"
  unfolding masks
  apply (rule bit_word_eqI)
  subgoal for n
    by (cases "2 \<le> n") (auto simp add: bit_simps suc_suc_minus2 add_minus_same not_less not_le)
  done

lemma quad_byte2: "push_bit 4 (((push_bit 4 ((a::byte) AND 0x03) OR drop_bit 4 (b::byte)) AND 0x3f) AND 0x0f) OR drop_bit 2 ((push_bit 2 (b AND 0x0f) OR drop_bit 6 (c::byte)) AND 0x3f) = b"
  unfolding masks
  apply (rule bit_word_eqI)
  subgoal for n
    by (cases "4 \<le> n") (auto simp add: bit_simps suc_suc_minus2 add_minus_same not_less not_le)
  done

lemma quad_byte3: "push_bit 6 (((push_bit 2 ((b::byte) AND 0x0f) OR drop_bit 6 (c::byte)) AND 0x3f) AND 0x03) OR ((c AND 0x3f) AND 0x3f) = c"
  unfolding masks
  apply (rule bit_word_eqI)
  apply (auto simp add: bit_simps suc_suc_minus2 add_minus_same not_less not_le)
  done

lemma alphabet_all:
  "\<forall>n<64. table_a2b_base64 (urlsafe_translate (b64url_alphabet ! n)) = Some (of_nat n)
        \<and> (of_char (b64url_alphabet ! n) :: nat) < 128
        \<and> urlsafe_translate (b64url_alphabet ! n) \<noteq> CHR ''=''"
  apply (simp only: numeral_nat All_less_Suc One_nat_def)
  apply (simp add: table_a2b_base64_def urlsafe_translate_def b64url_alphabet_def)
  done

lemma sextet:
  "table_a2b_base64 (urlsafe_translate (b64url_char v)) = Some (v AND 0x3f)"
  "(of_char (b64url_char v) :: nat) < 128"
  "urlsafe_translate (b64url_char v) \<noteq> CHR ''=''"
  using alphabet_all unat_and_63 [of v] by (simp_all add: b64url_char_def)

lemma tail_byte1: "push_bit 2 (drop_bit 2 (a::byte) AND 0x3f) OR drop_bit 4 (push_bit 4 (a AND 0x03) AND 0x3f) = a"
  using quad_byte1 [of a 0] by simp

lemma tail_byte2: "push_bit 4 (((push_bit 4 ((a::byte) AND 0x03) OR drop_bit 4 (b::byte)) AND 0x3f) AND 0x0f) OR drop_bit 2 (push_bit 2 (b AND 0x0f) AND 0x3f) = b"
  using quad_byte2 [of a b 0] by simp

lemma a2b_loop_q0:
  "a2b_loop 0 l p (urlsafe_translate (b64url_char v) # cs) = a2b_loop 1 (v AND 0x3f) 0 cs"
  by (simp add: sextet)

lemma a2b_loop_q1:
  "a2b_loop 1 l p (urlsafe_translate (b64url_char v) # cs) =
     emit (push_bit 2 l OR drop_bit 4 (v AND 0x3f)) (a2b_loop 2 ((v AND 0x3f) AND 0x0f) 0 cs)"
  by (simp add: sextet)

lemma a2b_loop_q2:
  "a2b_loop 2 l p (urlsafe_translate (b64url_char v) # cs) =
     emit (push_bit 4 l OR drop_bit 2 (v AND 0x3f)) (a2b_loop 3 ((v AND 0x3f) AND 0x03) 0 cs)"
  by (simp add: sextet)

lemma a2b_loop_q3:
  "a2b_loop 3 l p (urlsafe_translate (b64url_char v) # cs) =
     emit (push_bit 6 l OR (v AND 0x3f)) (a2b_loop 0 0 0 cs)"
  by (simp add: sextet)

lemma a2b_loop_pad2: "a2b_loop 2 l 0 (CHR ''='' # CHR ''='' # cs) = Inr []"
  by simp

lemma a2b_loop_pad3: "a2b_loop 3 l 0 (CHR ''='' # cs) = Inr []"
  by simp

lemma emit_Inr: "emit b (Inr bs) = Inr (b # bs)"
  by (simp add: emit_def)

lemma a2b_loop_pads0: "a2b_loop 0 l p (replicate k (CHR ''='')) = Inr []"
  by (induction k) simp_all

lemmas a2b_steps =
  b64url_encode.simps list.map append_Cons append_Nil replicate_Suc
  a2b_loop_q0 a2b_loop_q1 a2b_loop_q2 a2b_loop_q3 a2b_loop_pad2 a2b_loop_pad3 emit_Inr

lemma a2b_loop_encode:
  "1 \<le> k \<Longrightarrow> (k + length (b64url_encode bs)) mod 4 = 0 \<Longrightarrow>
   a2b_loop 0 0 0 (map urlsafe_translate (b64url_encode bs) @ replicate k (CHR ''='')) = Inr bs"
proof (induction bs arbitrary: k rule: b64url_encode.induct)
  case 1
  then show ?case by (simp add: a2b_loop_pads0)
next
  case (2 a)
  then obtain k' where k: "k = Suc (Suc k')"
    by (cases k; cases "k - 1") (auto simp: mod_Suc split: if_splits)
  show ?case
    unfolding k by (simp only: a2b_steps tail_byte1)
next
  case (3 a b)
  then obtain k' where k: "k = Suc k'" by (cases k) auto
  show ?case
    unfolding k by (simp only: a2b_steps quad_byte1 tail_byte2)
next
  case (4 a b c rest)
  have "a2b_loop 0 0 0 (map urlsafe_translate (b64url_encode rest) @ replicate k (CHR ''='')) = Inr rest"
    using 4 by simp
  then show ?case
    by (simp only: a2b_steps quad_byte1 quad_byte2 quad_byte3)
qed

lemma urlsafe_translate_pad: "urlsafe_translate (CHR ''='') = CHR ''=''"
  by (simp add: urlsafe_translate_def)

lemma b64url_encode_ascii: "c \<in> set (b64url_encode bs) \<Longrightarrow> (of_char c :: nat) < 128"
  by (induction bs rule: b64url_encode.induct) (auto simp: sextet)

lemma decode_padded_encoding: "urlsafe_b64decode (pad_segment (b64url_encode bs)) = Inr bs"
proof -
  let ?s = "b64url_encode bs"
  let ?k = "4 - length ?s mod 4"
  have "1 \<le> ?k" and "(?k + length ?s) mod 4 = 0"
    by presburger+
  then have "a2b_loop 0 0 0 (map urlsafe_translate ?s @ replicate ?k (CHR ''='')) = Inr bs"
    by (rule a2b_loop_encode)
  moreover have "\<not> (\<exists>c \<in> set (pad_segment ?s). (of_char c :: nat) \<ge> 128)"
    using b64url_encode_ascii [of _ bs] by (auto simp: pad_segment_def not_le)
  ultimately show ?thesis
    by (simp add: urlsafe_b64decode_def a2b_base64_def pad_segment_def urlsafe_translate_pad)
qed

lemma a2b_loop_excess_padding:
  "a2b_loop q l p s = Inr bs \<Longrightarrow> a2b_loop q l p (s @ replicate k (CHR ''='')) = Inr bs"
proof (induction q l p s arbitrary: bs rule: a2b_loop.induct)
  case (1 quad_pos leftchar pads)
  then show ?case by (simp add: a2b_loop_pads0 split: if_splits)
next
  case (2 quad_pos leftchar pads c cs)
  show ?case
  proof (cases "c = CHR ''=''")
    case True
    with 2 show ?thesis by (simp split: if_splits)
  next
    case False
    show ?thesis
    proof (cases "table_a2b_base64 c")
      case None
      with False 2 show ?thesis by simp
    next
      case (Some this_ch)
      with False 2 show ?thesis
        by (auto simp add: emit_def split: if_splits sum.splits)
    qed
  qed
qed

lemma urlsafe_b64decode_excess_padding:
  assumes "urlsafe_b64decode seg = Inr bs"
  shows "urlsafe_b64decode (seg @ replicate k (CHR ''='')) = Inr bs"
proof -
  from assms have ascii: "\<not> (\<exists>c \<in> set seg. (of_char c :: nat) \<ge> 128)"
    and dec: "a2b_loop 0 0 0 (map urlsafe_translate seg) = Inr bs"
    by (auto simp: urlsafe_b64decode_def a2b_base64_def split: if_splits)
  from dec have "a2b_loop 0 0 0 (map urlsafe_translate seg @ replicate k (CHR ''='')) = Inr bs"
    by (rule a2b_loop_excess_padding)
  with ascii show ?thesis
    by (auto simp: urlsafe_b64decode_def a2b_base64_def urlsafe_translate_pad)
qed

lemma replicate_four: "replicate 4 x = [x, x, x, x]"
  by (simp add: eval_nat_numeral)

text \<open>
  Claim C9. The padding step appends \<open>4 - len mod 4\<close> pad characters, between one and four
  of them; a segment whose length is a multiple of 4 gets four, not none. The decoding of
  such a segment then rests on the decoder skipping pad characters at a quad boundary:
  \<^verbatim>\<open>a2b_base64\<close> in its lenient mode does, so a segment that decodes on its own decodes to
  the same bytes with the four pad characters appended.
\<close>

theorem pad_segment_appends_one_to_four:
  "pad_segment seg = seg @ replicate (4 - length seg mod 4) (CHR ''='')
   \<and> 1 \<le> 4 - length seg mod 4 \<and> 4 - length seg mod 4 \<le> 4
   \<and> (length seg mod 4 = 0 \<longrightarrow> pad_segment seg = seg @ ''===='')
   \<and> (length seg mod 4 = 0 \<and> urlsafe_b64decode seg = Inr bs \<longrightarrow>
        urlsafe_b64decode (pad_segment seg) = Inr bs)"
proof (intro conjI impI)
  show "pad_segment seg = seg @ replicate (4 - length seg mod 4) (CHR ''='')"
    by (simp only: pad_segment_def)
  show "1 \<le> 4 - length seg mod 4"
    by presburger
  show "4 - length seg mod 4 \<le> 4"
    by presburger
  show "pad_segment seg = seg @ ''===='' " if "length seg mod 4 = 0"
    using that by (simp only: pad_segment_def diff_zero replicate_four)
  show "urlsafe_b64decode (pad_segment seg) = Inr bs"
    if "length seg mod 4 = 0 \<and> urlsafe_b64decode seg = Inr bs"
    using that by (simp only: pad_segment_def urlsafe_b64decode_excess_padding)
qed

theorem pad_segment_witness:
  "length ''eyB9'' mod 4 = 0 \<and> pad_segment ''eyB9'' = ''eyB9'' @ ''====''
   \<and> urlsafe_b64decode ''eyB9'' = Inr [0x7b, 0x20, 0x7d]
   \<and> urlsafe_b64decode (pad_segment ''eyB9'') = Inr [0x7b, 0x20, 0x7d]"
proof -
  have h: "length ''eyB9'' mod 4 = 0"
    by simp
  have d: "urlsafe_b64decode ''eyB9'' = Inr [0x7b, 0x20, 0x7d]"
    by code_simp
  note t = pad_segment_appends_one_to_four [of "''eyB9''" "[0x7b, 0x20, 0x7d]"]
  have p: "pad_segment ''eyB9'' = ''eyB9'' @ ''====''"
    using t [THEN conjunct2, THEN conjunct2, THEN conjunct2, THEN conjunct1] h by (rule mp)
  have q: "urlsafe_b64decode (pad_segment ''eyB9'') = Inr [0x7b, 0x20, 0x7d]"
    using t [THEN conjunct2, THEN conjunct2, THEN conjunct2, THEN conjunct2] conjI [OF h d]
    by (rule mp)
  from h p d q show ?thesis by (intro conjI)
qed

text \<open>
  Claim C4. Round trip: when a byte string is a serialization of a JSON value \<open>v\<close> (the
  library decodes the bytes to a text and parses the text to \<open>v\<close>), the segment decoding
  of the program, applied to the unpadded base64url encoding of the bytes, returns \<open>v\<close>,
  whatever the length of the segment.
\<close>

theorem segment_round_trip:
  assumes "bytes_decode lib bs = Some txt" and "json_loads lib txt = Some v"
  shows "decode_segment lib (b64url_encode bs) = Inr v"
  using assms by (simp add: decode_segment_def decode_padded_encoding)

theorem segment_round_trip_witness:
  "b64url_encode [0x7b, 0x7d] = ''e30''
   \<and> decode_segment cpython_fragment ''e30'' = Inr (JObj [])
   \<and> b64url_encode [0x5b, 0x31, 0x5d] = ''WzFd''
   \<and> decode_segment cpython_fragment ''WzFd'' = Inr (JArr [JInt 1])
   \<and> b64url_encode [0x7b, 0x22, 0x61, 0x6c, 0x67, 0x22, 0x3a, 0x20,
                      0x22, 0x45, 0x53, 0x32, 0x35, 0x36, 0x22, 0x7d] = ''eyJhbGciOiAiRVMyNTYifQ''
   \<and> decode_segment cpython_fragment ''eyJhbGciOiAiRVMyNTYifQ'' =
       Inr (JObj [(''alg'', JStr ''ES256'')])"
proof -
  let ?alg = "[0x7b, 0x22, 0x61, 0x6c, 0x67, 0x22, 0x3a, 0x20,
               0x22, 0x45, 0x53, 0x32, 0x35, 0x36, 0x22, 0x7d] :: byte list"
  have d1: "bytes_decode cpython_fragment [0x7b, 0x7d] = Some ''{}''"
    by code_simp
  have l1: "json_loads cpython_fragment ''{}'' = Some (JObj [])"
    by code_simp
  have e1: "b64url_encode [0x7b, 0x7d] = ''e30''"
    by code_simp
  have d2: "bytes_decode cpython_fragment [0x5b, 0x31, 0x5d] = Some ''[1]''"
    by code_simp
  have l2: "json_loads cpython_fragment ''[1]'' = Some (JArr [JInt 1])"
    by code_simp
  have e2: "b64url_encode [0x5b, 0x31, 0x5d] = ''WzFd''"
    by code_simp
  have d3: \<open>bytes_decode cpython_fragment ?alg = Some ''{"alg": "ES256"}''\<close>
    by code_simp
  have l3: \<open>json_loads cpython_fragment ''{"alg": "ES256"}'' =
      Some (JObj [(''alg'', JStr ''ES256'')])\<close>
    by code_simp
  have e3: "b64url_encode ?alg = ''eyJhbGciOiAiRVMyNTYifQ''"
    by code_simp
  have r1: "decode_segment cpython_fragment (b64url_encode [0x7b, 0x7d]) = Inr (JObj [])"
    by (rule segment_round_trip [OF d1 l1])
  have r2: "decode_segment cpython_fragment (b64url_encode [0x5b, 0x31, 0x5d]) =
      Inr (JArr [JInt 1])"
    by (rule segment_round_trip [OF d2 l2])
  have r3: "decode_segment cpython_fragment (b64url_encode ?alg) =
      Inr (JObj [(''alg'', JStr ''ES256'')])"
    by (rule segment_round_trip [OF d3 l3])
  from r1 e1 r2 e2 r3 e3 show ?thesis by (simp only: simp_thms)
qed

section \<open>The effects of a run\<close>

lemma writes_Nil: "writes [] = []"
  by (simp add: writes_def)

lemma writes_Cons:
  "writes (Print m # evs) = writes evs"
  "writes (Post req # evs) = writes evs"
  "writes (Write name content # evs) = (name, content) # writes evs"
  by (simp_all add: writes_def)

lemma writes_append: "writes (xs @ ys) = writes xs @ writes ys"
  by (simp add: writes_def)

lemma writes_map_Print: "writes (map Print ms) = []"
  by (induction ms) (simp_all add: writes_Nil writes_Cons)

lemma posts_Nil: "posts [] = []"
  by (simp add: posts_def)

lemma posts_Cons:
  "posts (Print m # evs) = posts evs"
  "posts (Post req # evs) = req # posts evs"
  "posts (Write name content # evs) = posts evs"
  by (simp_all add: posts_def)

lemma posts_append: "posts (xs @ ys) = posts xs @ posts ys"
  by (simp add: posts_def)

lemma posts_map_Print: "posts (map Print ms) = []"
  by (induction ms) (simp_all add: posts_Nil posts_Cons)

lemmas effects =
  writes_Nil writes_Cons writes_append writes_map_Print
  posts_Nil posts_Cons posts_append posts_map_Print

lemma load_failed_effects:
  "snd (load_failed e) = Exited 1" "writes (fst (load_failed e)) = []"
  "posts (fst (load_failed e)) = []"
  by (cases e; simp add: effects)+

lemma request_failed_effects:
  "snd (request_failed e) = Exited 1" "writes (fst (request_failed e)) = []"
  "posts (fst (request_failed e)) = []"
  by (cases e; simp add: effects)+



lemma posts_save_and_summarise: "posts (save_and_summarise lib w verbose payload) = []"
  by (simp add: save_and_summarise_def decode_failed_def effects
        split: prod.splits option.splits)

lemma posts_decode_jwt: "posts (decode_jwt lib w jwt_token verbose) = []"
  by (simp add: decode_jwt_def Let_def decode_failed_def effects posts_save_and_summarise
        split: sum.splits prod.splits)

lemma handle_response_effects:
  "snd (handle_response lib w verbose r) = snd (handle_response lib w verbose' r)"
  "posts (fst (handle_response lib w verbose r)) = []"
  by (simp_all add: handle_response_def after_def Let_def effects request_failed_effects
        posts_decode_jwt)

lemma verify_evidence_load_failed:
  "load_evidence lib w = Inl e \<Longrightarrow>
   verify_evidence lib w verbose = after [Print ReadEvidenceFile] (load_failed e)"
  by (simp add: verify_evidence_def Let_def)

lemma verify_evidence_no_length:
  "load_evidence lib w = Inr evidence_body \<Longrightarrow> py_len evidence_body = Inl e \<Longrightarrow>
   verify_evidence lib w verbose = ([Print ReadEvidenceFile], Crashed e)"
  by (simp add: verify_evidence_def Let_def after_def)

lemma verify_evidence_sends:
  "load_evidence lib w = Inr evidence_body \<Longrightarrow> py_len evidence_body = Inr n \<Longrightarrow>
   verify_evidence lib w verbose =
     after (run_prefix lib w evidence_body n)
       (case http_post w (sent_request lib w evidence_body) of
          Inl e \<Rightarrow> request_failed e
        | Inr r \<Rightarrow> handle_response lib w verbose r)"
  by (simp add: verify_evidence_def Let_def after_def run_prefix_def sent_request_def)

lemma run_prefix_effects:
  "writes (run_prefix lib w evidence_body n) = []"
  "posts (run_prefix lib w evidence_body n) = [sent_request lib w evidence_body]"
  by (simp_all add: run_prefix_def effects split: option.splits)

lemma load_evidence_no_file:
  "read_file w evidence_file = NoSuchFile \<Longrightarrow> load_evidence lib w = Inl FileNotFoundError"
  by (simp add: load_evidence_def)

lemma load_evidence_object:
  "read_file w evidence_file = FileText txt \<Longrightarrow> json_loads lib txt = Some (JObj kvs) \<Longrightarrow>
   load_evidence lib w =
     (case map_of kvs ''evidence'' of None \<Rightarrow> Inl (KeyError ''evidence'') | Some v \<Rightarrow> Inr v)"
  by (simp add: load_evidence_def py_getitem_def)

text \<open>
  Claim C6. When the evidence file does not exist, and when it holds a JSON object without
  the key \<^verbatim>\<open>evidence\<close>, the run prints the diagnostic of that class, exits with status 1
  and issues no HTTP POST. (A JSON text that is no object cannot be indexed by the key: the
  run ends the same way with the general diagnostic of a failed load.)
\<close>

theorem missing_input_stops_before_request:
  "(read_file w evidence_file = NoSuchFile \<longrightarrow>
      main lib w verbose = ([Print ReadEvidenceFile, Print EvidenceFileNotFound], 1)
      \<and> posts (fst (main lib w verbose)) = [])
   \<and> (read_file w evidence_file = FileText txt \<and> json_loads lib txt = Some (JObj kvs)
        \<and> map_of kvs ''evidence'' = None \<longrightarrow>
      main lib w verbose = ([Print ReadEvidenceFile, Print EvidenceFieldNotFound], 1)
      \<and> posts (fst (main lib w verbose)) = [])
   \<and> (read_file w evidence_file = FileText txt \<and> json_loads lib txt = Some v
        \<and> py_getitem v ''evidence'' = Inl TypeError \<longrightarrow>
      main lib w verbose =
        ([Print ReadEvidenceFile, Print (FailedToLoadEvidence TypeError),
          Print (Traceback TypeError)], 1)
      \<and> posts (fst (main lib w verbose)) = [])"
proof (intro conjI impI)
  assume "read_file w evidence_file = NoSuchFile"
  then have "verify_evidence lib w verbose =
      ([Print ReadEvidenceFile, Print EvidenceFileNotFound], Exited 1)"
    by (simp add: verify_evidence_load_failed load_evidence_no_file after_def)
  then have m: "main lib w verbose = ([Print ReadEvidenceFile, Print EvidenceFileNotFound], 1)"
    by (simp add: main_def exit_code_def)
  show "main lib w verbose = ([Print ReadEvidenceFile, Print EvidenceFileNotFound], 1)"
    by (rule m)
  show "posts (fst (main lib w verbose)) = []"
    by (simp add: m effects)
next
  assume h: "read_file w evidence_file = FileText txt \<and> json_loads lib txt = Some (JObj kvs)
        \<and> map_of kvs ''evidence'' = None"
  then have "load_evidence lib w = Inl (KeyError ''evidence'')"
    by (simp add: load_evidence_object)
  then have "verify_evidence lib w verbose =
      ([Print ReadEvidenceFile, Print EvidenceFieldNotFound], Exited 1)"
    by (simp add: verify_evidence_load_failed after_def)
  then have m: "main lib w verbose = ([Print ReadEvidenceFile, Print EvidenceFieldNotFound], 1)"
    by (simp add: main_def exit_code_def)
  show "main lib w verbose = ([Print ReadEvidenceFile, Print EvidenceFieldNotFound], 1)"
    by (rule m)
  show "posts (fst (main lib w verbose)) = []"
    by (simp add: m effects)
next
  assume h: "read_file w evidence_file = FileText txt \<and> json_loads lib txt = Some v
        \<and> py_getitem v ''evidence'' = Inl TypeError"
  then have "load_evidence lib w = Inl TypeError"
    by (simp add: load_evidence_def)
  then have "verify_evidence lib w verbose =
      ([Print ReadEvidenceFile, Print (FailedToLoadEvidence TypeError),
        Print (Traceback TypeError)], Exited 1)"
    by (simp add: verify_evidence_load_failed after_def)
  then have m: "main lib w verbose =
      ([Print ReadEvidenceFile, Print (FailedToLoadEvidence TypeError),
        Print (Traceback TypeError)], 1)"
    by (simp add: main_def exit_code_def)
  show "main lib w verbose =
      ([Print ReadEvidenceFile, Print (FailedToLoadEvidence TypeError),
        Print (Traceback TypeError)], 1)"
    by (rule m)
  show "posts (fst (main lib w verbose)) = []"
    by (simp add: m effects)
qed

theorem missing_input_witness:
  \<open>main cpython_fragment (world_with NoSuchFile [] answer_403) False =
     ([Print ReadEvidenceFile, Print EvidenceFileNotFound], 1)
   \<and> main cpython_fragment (world_with (FileText ''{"quote": "dGR4"}'') [] answer_403) False =
     ([Print ReadEvidenceFile, Print EvidenceFieldNotFound], 1)
   \<and> main cpython_fragment (world_with (FileText ''[]'') [] answer_403) False =
     ([Print ReadEvidenceFile, Print (FailedToLoadEvidence TypeError),
       Print (Traceback TypeError)], 1)\<close>
proof -
  let ?w1 = "world_with NoSuchFile [] answer_403"
  let ?w2 = \<open>world_with (FileText ''{"quote": "dGR4"}'') [] answer_403\<close>
  let ?w3 = "world_with (FileText ''[]'') [] answer_403"
  have a: "read_file ?w1 evidence_file = NoSuchFile"
    by (simp add: world_with_def)
  have b: \<open>read_file ?w2 evidence_file = FileText ''{"quote": "dGR4"}''
      \<and> json_loads cpython_fragment ''{"quote": "dGR4"}'' = Some (JObj [(''quote'', JStr ''dGR4'')])
      \<and> map_of [(''quote'', JStr ''dGR4'')] ''evidence'' = None\<close>
    by (simp add: world_with_def cpython_fragment_def json_texts_def)
  have c: "read_file ?w3 evidence_file = FileText ''[]''
      \<and> json_loads cpython_fragment ''[]'' = Some (JArr [])
      \<and> py_getitem (JArr []) ''evidence'' = Inl TypeError"
    by (simp add: world_with_def cpython_fragment_def json_texts_def py_getitem_def)
  note t1 = missing_input_stops_before_request
    [where w = ?w1 and lib = cpython_fragment and verbose = False, THEN conjunct1]
  note t2 = missing_input_stops_before_request
    [where w = ?w2 and lib = cpython_fragment and verbose = False,
     THEN conjunct2, THEN conjunct1]
  note t3 = missing_input_stops_before_request
    [where w = ?w3 and lib = cpython_fragment and verbose = False,
     THEN conjunct2, THEN conjunct2]
  from t1 a have "main cpython_fragment ?w1 False =
     ([Print ReadEvidenceFile, Print EvidenceFileNotFound], 1)" by blast
  moreover from t2 b have "main cpython_fragment ?w2 False =
     ([Print ReadEvidenceFile, Print EvidenceFieldNotFound], 1)" by blast
  moreover from t3 c have "main cpython_fragment ?w3 False =
     ([Print ReadEvidenceFile, Print (FailedToLoadEvidence TypeError),
       Print (Traceback TypeError)], 1)" by blast
  ultimately show ?thesis by (intro conjI)
qed



lemma posts_verify_evidence:
  "posts (fst (verify_evidence lib w verbose)) = [] \<or>
   (\<exists>evidence_body. posts (fst (verify_evidence lib w verbose)) = [sent_request lib w evidence_body])"
proof (cases "load_evidence lib w")
  case (Inl e)
  then show ?thesis
    by (simp add: verify_evidence_load_failed after_def effects load_failed_effects)
next
  case (Inr evidence_body)
  show ?thesis
  proof (cases "py_len evidence_body")
    case (Inl e)
    with Inr show ?thesis by (simp add: verify_evidence_no_length effects)
  next
    case len: (Inr n)
    show ?thesis
    proof (cases "http_post w (sent_request lib w evidence_body)")
      case (Inl e)
      with Inr len show ?thesis
        by (auto simp add: verify_evidence_sends after_def effects run_prefix_effects
              request_failed_effects)
    next
      case r: (Inr r)
      with Inr len show ?thesis
        by (auto simp add: verify_evidence_sends after_def effects run_prefix_effects
              handle_response_effects(2))
    qed
  qed
qed

lemma aa_header_present_fields:
  "aa_header lib (env_get w ''IMAGE_ID'' []) (env_get w ''INSTANCE_ID'' [])
      (env_get w ''INSTANCE_NAME'' []) (env_get w ''OWNER_ACCOUNT_ID'' []) =
   (if present_fields w = [] then None
    else Some (json_dumps lib (JObj (map (\<lambda>kv. (fst kv, JStr (snd kv))) (present_fields w)))))"
  by (simp add: aa_header_def aa_instance_info_def present_fields_def identity_fields_def)

lemma headers_sent_request:
  "headers (sent_request lib w evidence_body) =
     (''Content-Type'', ''application/json'') #
     (if present_fields w = [] then []
      else [(''AAInstanceInfo'',
             json_dumps lib (JObj (map (\<lambda>kv. (fst kv, JStr (snd kv))) (present_fields w))))])"
  by (simp add: sent_request_def build_request_def request_headers_def aa_header_present_fields)

text \<open>
  Claim C7. Every request a run sends carries the \<^verbatim>\<open>AAInstanceInfo\<close> header if and only if
  at least one of the four identity fields is a non-empty string; the value of the header
  is then \<^verbatim>\<open>json.dumps\<close> of the object of exactly the non-empty fields, in their order; when
  all four are empty the only header is \<^verbatim>\<open>Content-Type\<close>.
\<close>

theorem identity_header_iff_some_field:
  "\<forall>req \<in> set (posts (fst (main lib w verbose))).
     map_of (headers req) ''AAInstanceInfo'' =
       (if present_fields w = [] then None
        else Some (json_dumps lib
                     (JObj (map (\<lambda>kv. (fst kv, JStr (snd kv))) (present_fields w)))))
     \<and> (present_fields w = [] \<longrightarrow> headers req = [(''Content-Type'', ''application/json'')])"
proof
  fix req
  assume "req \<in> set (posts (fst (main lib w verbose)))"
  then have "req \<in> set (posts (fst (verify_evidence lib w verbose)))"
    by (simp add: main_def split_beta)
  with posts_verify_evidence [of lib w verbose]
  obtain evidence_body where "req = sent_request lib w evidence_body"
    by auto
  then show "map_of (headers req) ''AAInstanceInfo'' =
       (if present_fields w = [] then None
        else Some (json_dumps lib
                     (JObj (map (\<lambda>kv. (fst kv, JStr (snd kv))) (present_fields w)))))
     \<and> (present_fields w = [] \<longrightarrow> headers req = [(''Content-Type'', ''application/json'')])"
    by (simp add: headers_sent_request)
qed

theorem identity_header_witness:
  \<open>posts (fst (main cpython_fragment
      (world_with good_evidence [(''IMAGE_ID'', ''img-1''), (''OWNER_ACCOUNT_ID'', ''42'')]
         answer_403) False)) =
     [\<lparr>url = attestation_url,
       json_body = request_payload (JStr ''dGR4'') ''tapp'',
       headers = [(''Content-Type'', ''application/json''),
                  (''AAInstanceInfo'', ''{"image_id": "img-1", "owner_account_id": "42"}'')],
       verify = False\<rparr>]
   \<and> present_fields
        (world_with good_evidence [(''IMAGE_ID'', ''img-1''), (''OWNER_ACCOUNT_ID'', ''42'')]
           answer_403) =
       [(''image_id'', ''img-1''), (''owner_account_id'', ''42'')]
   \<and> map_of [(''Content-Type'', ''application/json''),
              (''AAInstanceInfo'', ''{"image_id": "img-1", "owner_account_id": "42"}'')]
        ''AAInstanceInfo'' =
       Some (json_dumps cpython_fragment
               (JObj [(''image_id'', JStr ''img-1''), (''owner_account_id'', JStr ''42'')]))
   \<and> present_fields (world_with good_evidence [] answer_403) = []
   \<and> posts (fst (main cpython_fragment (world_with good_evidence [] answer_403) False)) =
       [sent_request cpython_fragment (world_with good_evidence [] answer_403) (JStr ''dGR4'')]
   \<and> headers (sent_request cpython_fragment (world_with good_evidence [] answer_403)
        (JStr ''dGR4'')) = [(''Content-Type'', ''application/json'')]\<close>
proof -
  let ?w = "world_with good_evidence [(''IMAGE_ID'', ''img-1''), (''OWNER_ACCOUNT_ID'', ''42'')]
         answer_403"
  let ?req = \<open>\<lparr>url = attestation_url,
       json_body = request_payload (JStr ''dGR4'') ''tapp'',
       headers = [(''Content-Type'', ''application/json''),
                  (''AAInstanceInfo'', ''{"image_id": "img-1", "owner_account_id": "42"}'')],
       verify = False\<rparr>\<close>
  let ?u = "world_with good_evidence [] answer_403"
  let ?bare = "sent_request cpython_fragment ?u (JStr ''dGR4'')"
  have p: "posts (fst (main cpython_fragment ?w False)) = [?req]"
    by code_simp
  have f: "present_fields ?w = [(''image_id'', ''img-1''), (''owner_account_id'', ''42'')]"
    by code_simp
  have "?req \<in> set (posts (fst (main cpython_fragment ?w False)))"
    by (simp only: p list.set_intros)
  with identity_header_iff_some_field [of cpython_fragment ?w False]
  have "map_of (headers ?req) ''AAInstanceInfo'' =
       (if present_fields ?w = [] then None
        else Some (json_dumps cpython_fragment
                     (JObj (map (\<lambda>kv. (fst kv, JStr (snd kv))) (present_fields ?w)))))"
    by blast
  then have "map_of (headers ?req) ''AAInstanceInfo'' =
       Some (json_dumps cpython_fragment
               (JObj [(''image_id'', JStr ''img-1''), (''owner_account_id'', JStr ''42'')]))"
    by (simp add: f)
  then have h: \<open>map_of [(''Content-Type'', ''application/json''),
              (''AAInstanceInfo'', ''{"image_id": "img-1", "owner_account_id": "42"}'')]
        ''AAInstanceInfo'' =
       Some (json_dumps cpython_fragment
               (JObj [(''image_id'', JStr ''img-1''), (''owner_account_id'', JStr ''42'')]))\<close>
    by (simp only: request.simps)
  have f0: "present_fields ?u = []"
    by code_simp
  have p0: "posts (fst (main cpython_fragment ?u False)) = [?bare]"
    by code_simp
  have "?bare \<in> set (posts (fst (main cpython_fragment ?u False)))"
    by (simp only: p0 list.set_intros)
  with identity_header_iff_some_field [of cpython_fragment ?u False] f0
  have h0: "headers ?bare = [(''Content-Type'', ''application/json'')]"
    by blast
  from p f h f0 p0 h0 show ?thesis by (intro conjI)
qed

section \<open>Decoding failures\<close>













lemma posts_after_load:
  assumes "load_evidence lib w = Inr evidence_body" and "py_len evidence_body = Inr n"
  shows "posts (fst (verify_evidence lib w verbose)) = [sent_request lib w evidence_body]"
proof (cases "http_post w (sent_request lib w evidence_body)")
  case (Inl e)
  with assms show ?thesis
    by (simp add: verify_evidence_sends after_def effects run_prefix_effects
          request_failed_effects)
next
  case (Inr r)
  with assms show ?thesis
    by (simp add: verify_evidence_sends after_def effects run_prefix_effects
          handle_response_effects(2))
qed

text \<open>
  Claim C3, as amended. The loader enforces the presence of the \<^verbatim>\<open>evidence\<close> field only: an
  object without the key ends the run with the missing-field diagnostic and exit status 1;
  an object that maps the key to the empty string is accepted, and the run sends the
  request with the empty evidence.
\<close>

theorem evidence_presence_is_enforced:
  assumes "read_file w evidence_file = FileText txt"
    and "json_loads lib txt = Some (JObj kvs)"
  shows "(map_of kvs ''evidence'' = None \<longrightarrow>
            main lib w verbose = ([Print ReadEvidenceFile, Print EvidenceFieldNotFound], 1))
         \<and> (map_of kvs ''evidence'' = Some (JStr []) \<longrightarrow>
            load_evidence lib w = Inr (JStr [])
            \<and> posts (fst (main lib w verbose)) = [sent_request lib w (JStr [])]
            \<and> json_body (sent_request lib w (JStr [])) =
                request_payload (JStr []) (env_get w ''POLICY_ID'' ''tapp''))"
proof (intro conjI impI)
  assume "map_of kvs ''evidence'' = None"
  with assms have "load_evidence lib w = Inl (KeyError ''evidence'')"
    by (simp add: load_evidence_object)
  then have "verify_evidence lib w verbose =
      ([Print ReadEvidenceFile, Print EvidenceFieldNotFound], Exited 1)"
    by (simp add: verify_evidence_load_failed after_def)
  then show "main lib w verbose = ([Print ReadEvidenceFile, Print EvidenceFieldNotFound], 1)"
    by (simp add: main_def exit_code_def)
next
  assume "map_of kvs ''evidence'' = Some (JStr [])"
  with assms show l: "load_evidence lib w = Inr (JStr [])"
    by (simp add: load_evidence_object)
  have "py_len (JStr []) = Inr 0"
    by (simp add: py_len_def)
  with l have "posts (fst (verify_evidence lib w verbose)) = [sent_request lib w (JStr [])]"
    by (rule posts_after_load)
  then show "posts (fst (main lib w verbose)) = [sent_request lib w (JStr [])]"
    by (simp add: main_def split_beta)
  show "json_body (sent_request lib w (JStr [])) =
          request_payload (JStr []) (env_get w ''POLICY_ID'' ''tapp'')"
    by (simp add: sent_request_def build_request_def)
qed

theorem evidence_presence_witness:
  \<open>main cpython_fragment (world_with (FileText ''{"quote": "dGR4"}'') [] answer_403) True =
     ([Print ReadEvidenceFile, Print EvidenceFieldNotFound], 1)
   \<and> posts (fst (main cpython_fragment
        (world_with empty_evidence [] (answer_200 token_empty_payload)) True)) =
       [sent_request cpython_fragment
          (world_with empty_evidence [] (answer_200 token_empty_payload)) (JStr [])]\<close>
proof -
  let ?w1 = \<open>world_with (FileText ''{"quote": "dGR4"}'') [] answer_403\<close>
  let ?w2 = "world_with empty_evidence [] (answer_200 token_empty_payload)"
  have a1: \<open>read_file ?w1 evidence_file = FileText ''{"quote": "dGR4"}''\<close>
    by (simp add: world_with_def)
  have b1: \<open>json_loads cpython_fragment ''{"quote": "dGR4"}'' =
      Some (JObj [(''quote'', JStr ''dGR4'')])\<close>
    by (simp add: cpython_fragment_def json_texts_def)
  have c1: "map_of [(''quote'', JStr ''dGR4'')] ''evidence'' = None"
    by simp
  have a2: \<open>read_file ?w2 evidence_file = FileText ''{"evidence": ""}''\<close>
    by (simp add: world_with_def empty_evidence_def)
  have b2: \<open>json_loads cpython_fragment ''{"evidence": ""}'' =
      Some (JObj [(''evidence'', JStr [])])\<close>
    by (simp add: cpython_fragment_def json_texts_def)
  have c2: "map_of [(''evidence'', JStr [])] ''evidence'' = Some (JStr [])"
    by simp
  from evidence_presence_is_enforced [OF a1 b1, of True] c1
  have "main cpython_fragment ?w1 True =
     ([Print ReadEvidenceFile, Print EvidenceFieldNotFound], 1)"
    by blast
  moreover from evidence_presence_is_enforced [OF a2 b2, of True] c2
  have "posts (fst (main cpython_fragment ?w2 True)) = [sent_request cpython_fragment ?w2 (JStr [])]"
    by blast
  ultimately show ?thesis by (rule conjI)
qed

text \<open>
  The claim as stated fails: with the empty string as evidence the run sends the request
  and, on an answer of 200, ends with exit status 0.
\<close>

theorem empty_evidence_counterexample:
  \<open>read_file (world_with empty_evidence [] (answer_200 token_empty_payload)) evidence_file =
     FileText ''{"evidence": ""}''
   \<and> json_loads cpython_fragment ''{"evidence": ""}'' = Some (JObj [(''evidence'', JStr [])])
   \<and> main cpython_fragment (world_with empty_evidence [] (answer_200 token_empty_payload))
        False =
       ([Print ReadEvidenceFile, Print (EvidenceLength 0), Print (UsePolicyId ''tapp''),
         Print SendRequest,
         Post \<lparr>url = attestation_url, json_body = request_payload (JStr []) ''tapp'',
               headers = [(''Content-Type'', ''application/json'')], verify = False\<rparr>,
         Print (HttpStatusCode 200), Print VerificationSucceeded, Print BlankLine,
         Write ''jwt_payload.json'' ''{}'',
         Print ResultHeading, Print (MissingExpectedFields (KeyError ''submods'')),
         Write ''jwt_token.txt'' token_empty_payload, Print TokenSaved], 0)\<close>
  by code_simp




text \<open>
  A dump to the file that raises leaves what it wrote, and the handler of the outer
  \<^verbatim>\<open>try\<close> reports the exception: the summary does not run.
\<close>

lemma save_and_summarise_truncated:
  "writable w ''jwt_payload.json'' \<Longrightarrow> json_dump_indent lib payload = (written, Some x) \<Longrightarrow>
   save_and_summarise lib w verbose payload =
     [Write ''jwt_payload.json'' written, Print (FailedToDecodeJwt x), Print (Traceback x)]"
  by (simp add: save_and_summarise_def decode_failed_def)




section \<open>The verbose flag and the files written\<close>







lemma token_name_differs: "''jwt_token.txt'' \<noteq> ''jwt_payload.json''"
  by simp











end
